theory Spec2Isabelle
  imports Complex_Main
begin

section \<open>Calendar dates and their ISO rendering\<close>

text \<open>
  The application handles \<^verbatim>\<open>datetime.date\<close> objects (form inputs, today's date) and
  stores them in the request ledger as \<^verbatim>\<open>YYYY-MM-DD\<close> strings. A date object is a
  triple of year, month and day; Python compares two dates as it compares these
  triples, lexicographically.
\<close>

record date =
  year :: nat
  month :: nat
  day :: nat

definition date_lt :: "date \<Rightarrow> date \<Rightarrow> bool" where
  "date_lt a b =
     (year a < year b \<or>
      (year a = year b \<and> (month a < month b \<or> (month a = month b \<and> day a < day b))))"

definition date_le :: "date \<Rightarrow> date \<Rightarrow> bool" where
  "date_le a b = (date_lt a b \<or> a = b)"

definition date_gt :: "date \<Rightarrow> date \<Rightarrow> bool" where
  "date_gt a b = date_lt b a"

definition date_ge :: "date \<Rightarrow> date \<Rightarrow> bool" where
  "date_ge a b = date_le b a"

definition leap :: "nat \<Rightarrow> bool" where
  "leap y = (y mod 4 = 0 \<and> (y mod 100 \<noteq> 0 \<or> y mod 400 = 0))"

definition days_in_month :: "nat \<Rightarrow> nat \<Rightarrow> nat" where
  "days_in_month y m =
     (if m = 2 then (if leap y then 29 else 28)
      else if m = 4 \<or> m = 6 \<or> m = 9 \<or> m = 11 then 30 else 31)"

text \<open>
  The values a \<^verbatim>\<open>datetime.date\<close> object can hold: the constructor refuses every other
  triple.
\<close>

definition valid_date :: "date \<Rightarrow> bool" where
  "valid_date d =
     (1 \<le> year d \<and> year d \<le> 9999 \<and> 1 \<le> month d \<and> month d \<le> 12 \<and>
      1 \<le> day d \<and> day d \<le> days_in_month (year d) (month d))"

definition digit :: "nat \<Rightarrow> char" where
  "digit n = char_of (48 + n)"

definition is_digit :: "char \<Rightarrow> bool" where
  "is_digit c = (48 \<le> (of_char c :: nat) \<and> (of_char c :: nat) \<le> 57)"

definition digit_val :: "char \<Rightarrow> nat" where
  "digit_val c = of_char c - 48"

text \<open>
  \<^verbatim>\<open>d.strftime("%Y-%m-%d")\<close>: the year on four digits, month and day on two. (For a
  year below 1000 the width of \<^verbatim>\<open>%Y\<close> depends on the platform's C library; the dates
  the booking path renders are not before today, whose year has four digits.)
\<close>

definition strftime :: "date \<Rightarrow> string" where
  "strftime d =
     [digit (year d div 1000 mod 10), digit (year d div 100 mod 10),
      digit (year d div 10 mod 10), digit (year d mod 10), CHR ''-'',
      digit (month d div 10 mod 10), digit (month d mod 10), CHR ''-'',
      digit (day d div 10 mod 10), digit (day d mod 10)]"

text \<open>
  \<^verbatim>\<open>datetime.strptime(s, "%Y-%m-%d").date()\<close>. The format compiles to the regular
  expression \<^verbatim>\<open>(\d\d\d\d)-(1[0-2]|0[1-9]|[1-9])-(3[01]|[12]\d|0[1-9]|[1-9]| [1-9])\<close>,
  matched at the start of the string; text left over after the match and a triple
  that is no calendar date both raise \<^verbatim>\<open>ValueError\<close>, here \<open>None\<close>.
  \<open>month_group\<close> is the month alternative together with the hyphen that must follow
  it, \<open>day_group\<close> the day alternative; both return the value and the rest of the
  string.
\<close>

definition month_group :: "string \<Rightarrow> (nat \<times> string) option" where
  "month_group s =
     (case s of
        a # b # c # r \<Rightarrow>
          if is_digit a \<and> digit_val a = 1 \<and> is_digit b \<and> digit_val b \<le> 2 \<and> c = CHR ''-''
            then Some (10 + digit_val b, r)
          else if is_digit a \<and> digit_val a = 0 \<and> is_digit b \<and> 1 \<le> digit_val b \<and> c = CHR ''-''
            then Some (digit_val b, r)
          else if is_digit a \<and> 1 \<le> digit_val a \<and> b = CHR ''-''
            then Some (digit_val a, c # r)
          else None
      | [a, b] \<Rightarrow>
          if is_digit a \<and> 1 \<le> digit_val a \<and> b = CHR ''-'' then Some (digit_val a, [])
          else None
      | _ \<Rightarrow> None)"

definition day_group :: "string \<Rightarrow> (nat \<times> string) option" where
  "day_group s =
     (case s of
        [] \<Rightarrow> None
      | [a] \<Rightarrow> if is_digit a \<and> 1 \<le> digit_val a then Some (digit_val a, []) else None
      | a # b # r \<Rightarrow>
          if is_digit a \<and> digit_val a = 3 \<and> is_digit b \<and> digit_val b \<le> 1
            then Some (30 + digit_val b, r)
          else if is_digit a \<and> 1 \<le> digit_val a \<and> digit_val a \<le> 2 \<and> is_digit b
            then Some (10 * digit_val a + digit_val b, r)
          else if is_digit a \<and> digit_val a = 0 \<and> is_digit b \<and> 1 \<le> digit_val b
            then Some (digit_val b, r)
          else if is_digit a \<and> 1 \<le> digit_val a
            then Some (digit_val a, b # r)
          else if a = CHR '' '' \<and> is_digit b \<and> 1 \<le> digit_val b
            then Some (digit_val b, r)
          else None)"

definition strptime :: "string \<Rightarrow> date option" where
  "strptime s =
     (case s of
        y1 # y2 # y3 # y4 # h # r \<Rightarrow>
          if is_digit y1 \<and> is_digit y2 \<and> is_digit y3 \<and> is_digit y4 \<and> h = CHR ''-'' then
            (case month_group r of
               None \<Rightarrow> None
             | Some (m, r') \<Rightarrow>
                 (case day_group r' of
                    None \<Rightarrow> None
                  | Some (d, r'') \<Rightarrow>
                      let dt = \<lparr>year = 1000 * digit_val y1 + 100 * digit_val y2
                                        + 10 * digit_val y3 + digit_val y4,
                                month = m, day = d\<rparr>
                      in if r'' = [] \<and> valid_date dt then Some dt else None))
          else None
      | _ \<Rightarrow> None)"

section \<open>The resource store and the request ledger\<close>

text \<open>
  The two data frames \<^verbatim>\<open>resources_df\<close> and \<^verbatim>\<open>requests_df\<close>, one record per row, in
  row order. The column \<^verbatim>\<open>id\<close> of a resource is the field \<open>id_col\<close>.
\<close>

record resource =
  id_col :: int
  title :: string
  category :: string
  description :: string
  location :: string
  availability_start :: string
  availability_end :: string
  condition :: string
  rating :: int

text \<open>
  What \<^verbatim>\<open>resource['title']\<close> holds after
  \<^verbatim>\<open>resource = resources_df.loc[resources_df['id'] == resource_id].squeeze()\<close>:
  the title itself when exactly one row has the id, and otherwise (no row, or
  several) the column of the titles of the rows selected, since \<^verbatim>\<open>squeeze\<close> only
  collapses an axis of length one.
\<close>

datatype title_value = Title string | Titles "string list"

record request =
  request_id :: int
  user_name :: string
  resource_id :: int
  resource_title :: title_value
  start_date :: string
  end_date :: string
  status :: string

record app_state =
  resources_df :: "resource list"
  requests_df :: "request list"

datatype py_error = ValueError | IndexError

text \<open>What a form handler shows: \<^verbatim>\<open>st.error\<close> with its message, \<^verbatim>\<open>st.success\<close>,
  \<^verbatim>\<open>st.warning\<close>, or an exception that escapes the handler.\<close>

datatype outcome = St_error string | St_success | St_warning | Raised py_error

section \<open>Validation\<close>

text \<open>\<^verbatim>\<open>validate_dates\<close>; today's date, read from the clock by the source, is a parameter.\<close>

definition validate_dates :: "date \<Rightarrow> date \<Rightarrow> date \<Rightarrow> bool \<times> string" where
  "validate_dates today s_date e_date =
     (if date_gt s_date e_date then
        (False, ''Start date must be before or equal to end date.'')
      else if date_lt s_date today \<or> date_lt e_date today then
        (False, ''Dates cannot be in the past.'')
      else (True, ''''))"

text \<open>
  \<^verbatim>\<open>str.strip()\<close> removes the whitespace characters at both ends; among the
  characters below 256 Python counts as whitespace the codes 9 to 13, 28 to 32, 133
  and 160.
\<close>

definition isspace :: "char \<Rightarrow> bool" where
  "isspace c =
     (let n = (of_char c :: nat)
      in (9 \<le> n \<and> n \<le> 13) \<or> (28 \<le> n \<and> n \<le> 32) \<or> n = 133 \<or> n = 160)"

definition strip :: "string \<Rightarrow> string" where
  "strip s = rev (dropWhile isspace (rev (dropWhile isspace s)))"

section \<open>Availability check\<close>

text \<open>
  The loop of \<^verbatim>\<open>is_resource_available\<close> over the rows selected: each row's dates are
  parsed (a \<^verbatim>\<open>ValueError\<close> of \<^verbatim>\<open>strptime\<close> escapes), and the first row that overlaps
  the candidate range ends the loop with \<^verbatim>\<open>False\<close>.
\<close>

fun overlap_loop :: "date \<Rightarrow> date \<Rightarrow> request list \<Rightarrow> py_error + bool" where
  "overlap_loop s_date e_date [] = Inr True"
| "overlap_loop s_date e_date (row # rows) =
     (case strptime (start_date row) of
        None \<Rightarrow> Inl ValueError
      | Some existing_start \<Rightarrow>
          (case strptime (end_date row) of
             None \<Rightarrow> Inl ValueError
           | Some existing_end \<Rightarrow>
               if date_le s_date existing_end \<and> date_ge e_date existing_start
               then Inr False
               else overlap_loop s_date e_date rows))"

definition is_resource_available ::
    "int \<Rightarrow> date \<Rightarrow> date \<Rightarrow> request list \<Rightarrow> py_error + bool" where
  "is_resource_available rid s_date e_date ledger =
     (let existing = filter (\<lambda>r. resource_id r = rid \<and> status r = ''Confirmed'') ledger
      in overlap_loop s_date e_date existing)"

section \<open>Appending a request\<close>

text \<open>
  The two identifier columns are read from the CSV files as columns of 64-bit signed
  integers, so \<^verbatim>\<open>df[col].max() + 1\<close> is an addition of 64-bit integers: past the
  largest of them, \<open>2^63 - 1\<close>, it wraps around to the smallest, \<open>- 2^63\<close>.
  \<open>wrap64\<close> is that wrap-around on the integers.
\<close>

definition wrap64 :: "int \<Rightarrow> int" where
  "wrap64 n = (n + 2 ^ 63) mod 2 ^ 64 - 2 ^ 63"

text \<open>\<^verbatim>\<open>1 if df.empty else df[col].max() + 1\<close>, on the column of the ids present.\<close>

definition next_id :: "int list \<Rightarrow> int" where
  "next_id ids = (case ids of [] \<Rightarrow> 1 | x # xs \<Rightarrow> wrap64 (fold max xs x + 1))"

text \<open>\<^verbatim>\<open>resources_df.loc[resources_df['id'] == rid, col] = v\<close>, with the assignment to
  the column as a function on the row.\<close>

definition loc_assign :: "int \<Rightarrow> (resource \<Rightarrow> resource) \<Rightarrow> resource list \<Rightarrow> resource list" where
  "loc_assign rid upd df = map (\<lambda>r. if id_col r = rid then upd r else r) df"

definition add_request ::
    "string \<Rightarrow> int \<Rightarrow> title_value \<Rightarrow> date \<Rightarrow> date \<Rightarrow> string \<Rightarrow> app_state \<Rightarrow> app_state" where
  "add_request u rid ttl s_date e_date stat st =
     (let new_request =
            \<lparr>request_id = next_id (map request_id (requests_df st)),
             user_name = u, resource_id = rid, resource_title = ttl,
             start_date = strftime s_date, end_date = strftime e_date, status = stat\<rparr>;
          st1 = st\<lparr>requests_df := requests_df st @ [new_request]\<rparr>
      in if stat = ''Confirmed'' then
           st1\<lparr>resources_df :=
                 loc_assign rid (\<lambda>r. r\<lparr>availability_end := ''''\<rparr>)
                   (loc_assign rid (\<lambda>r. r\<lparr>availability_start := ''''\<rparr>) (resources_df st1))\<rparr>
         else st1)"

section \<open>The request form\<close>

definition squeeze_title :: "resource list \<Rightarrow> int \<Rightarrow> title_value" where
  "squeeze_title df rid =
     (case filter (\<lambda>r. id_col r = rid) df of
        [r] \<Rightarrow> Title (title r)
      | rs \<Rightarrow> Titles (map title rs))"

text \<open>
  The submit handler of the request form, the same code on the Home page and on the
  Smart Search page: validation of the dates, then of the name, then the availability
  check and the append. It returns what is shown and the two data frames afterwards.
\<close>

definition submit_request ::
    "date \<Rightarrow> string \<Rightarrow> int \<Rightarrow> date \<Rightarrow> date \<Rightarrow> app_state \<Rightarrow> outcome \<times> app_state" where
  "submit_request today u rid s_date e_date st =
     (let ttl = squeeze_title (resources_df st) rid;
          (is_valid, msg) = validate_dates today s_date e_date
      in if \<not> is_valid then (St_error msg, st)
         else if strip u = '''' then (St_error ''Please enter your name.'', st)
         else (case is_resource_available rid s_date e_date (requests_df st) of
                 Inl err \<Rightarrow> (Raised err, st)
               | Inr available \<Rightarrow>
                   if available
                   then (St_success, add_request u rid ttl s_date e_date ''Confirmed'' st)
                   else (St_warning, add_request u rid ttl s_date e_date ''Waitlist'' st)))"

section \<open>Offering a resource\<close>

definition offer_resource ::
    "date \<Rightarrow> string \<Rightarrow> string \<Rightarrow> string \<Rightarrow> string \<Rightarrow> date \<Rightarrow> date \<Rightarrow> string \<Rightarrow> int
       \<Rightarrow> app_state \<Rightarrow> outcome \<times> app_state" where
  "offer_resource today ttl cat descr loc s_date e_date cond rate st =
     (let (is_valid, msg) = validate_dates today s_date e_date
      in if \<not> is_valid then (St_error msg, st)
         else if strip ttl = '''' \<or> strip loc = '''' then
           (St_error ''Title and location are required.'', st)
         else
           (let new_id = next_id (map id_col (resources_df st));
                new_resource =
                  \<lparr>id_col = new_id, title = ttl, category = cat, description = descr,
                   location = loc, availability_start = strftime s_date,
                   availability_end = strftime e_date, condition = cond, rating = rate\<rparr>
            in (St_success, st\<lparr>resources_df := resources_df st @ [new_resource]\<rparr>)))"

section \<open>Counters of the Home page and of the dashboard\<close>

definition confirmed_requests :: "request list \<Rightarrow> nat" where
  "confirmed_requests ledger = length (filter (\<lambda>r. status r = ''confirmed'') ledger)"

definition waitlist_requests :: "request list \<Rightarrow> nat" where
  "waitlist_requests ledger = length (filter (\<lambda>r. status r = ''requested'') ledger)"

definition confirmed :: "request list \<Rightarrow> nat" where
  "confirmed ledger = length (filter (\<lambda>r. status r = ''confirmed'') ledger)"

definition waitlist :: "request list \<Rightarrow> nat" where
  "waitlist ledger = length (filter (\<lambda>r. status r = ''requested'') ledger)"

section \<open>Runs of the application\<close>

text \<open>
  A run starts from the two empty frames that \<^verbatim>\<open>initialize_csv\<close> creates and
  performs form submissions, each with the date of the day it happens. An exception
  in a handler leaves the frames as they were.
\<close>

datatype action =
    Submit date string int date date
  | Offer date string string string string date date string int

fun step :: "app_state \<Rightarrow> action \<Rightarrow> app_state" where
  "step st (Submit today u rid s_date e_date) = snd (submit_request today u rid s_date e_date st)"
| "step st (Offer today ttl cat descr loc s_date e_date cond rate) =
     snd (offer_resource today ttl cat descr loc s_date e_date cond rate st)"

definition initial :: app_state where
  "initial = \<lparr>resources_df = [], requests_df = []\<rparr>"

definition run :: "action list \<Rightarrow> app_state" where
  "run acts = foldl step initial acts"

section \<open>Smart search\<close>

text \<open>
  The embedding model and the nearest-neighbour index are collaborators outside the
  repository: \<open>retrieve query n\<close> stands for
  \<^verbatim>\<open>index.search(model.encode([query]), n)\<close>, as the list of the pairs of a distance
  and a row position that \<^verbatim>\<open>zip(distances[0], indices[0])\<close> walks through. Distances
  are taken as real numbers: the rounding of the 32-bit floating-point values is not
  modelled.
\<close>

definition iloc :: "'a list \<Rightarrow> int \<Rightarrow> py_error + 'a" where
  "iloc df idx =
     (let n = int (length df); j = (if idx < 0 then n + idx else idx)
      in if 0 \<le> j \<and> j < n then Inr (df ! nat j) else Inl IndexError)"

definition score :: "real \<Rightarrow> real" where
  "score dst = max (1 - dst / 2) 0"

fun search_loop ::
    "resource list \<Rightarrow> nat \<Rightarrow> (real \<times> int) list \<Rightarrow> (resource \<times> real) list
       \<Rightarrow> py_error + (resource \<times> real) list" where
  "search_loop df k [] results_list = Inr results_list"
| "search_loop df k ((dst, idx) # rest) results_list =
     (if dst \<ge> 0 then
        (case iloc df idx of
           Inl err \<Rightarrow> Inl err
         | Inr row \<Rightarrow>
             (let results_list' = results_list @ [(row, score dst)]
              in if length results_list' \<ge> k then Inr results_list'
                 else search_loop df k rest results_list'))
      else if length results_list \<ge> k then Inr results_list
      else search_loop df k rest results_list)"

definition search ::
    "(string \<Rightarrow> nat \<Rightarrow> (real \<times> int) list) \<Rightarrow> resource list \<Rightarrow> string \<Rightarrow> nat
       \<Rightarrow> py_error + (resource \<times> real) list" where
  "search retrieve df query k = search_loop df k (retrieve query (k * 2)) []"

text \<open>
  \<^verbatim>\<open>build_index\<close>, which the Smart Search page calls before anything else. Its first
  statement assigns to the column \<^verbatim>\<open>text\<close> the texts of the rows joined; on a frame
  without rows the row-wise \<^verbatim>\<open>agg\<close> gives a frame back, not a column, and the
  assignment raises \<^verbatim>\<open>ValueError\<close>. On a frame with rows it returns the model and
  the index, here the collaborator \<open>retrieve\<close>.
\<close>

definition build_index ::
    "(string \<Rightarrow> nat \<Rightarrow> (real \<times> int) list) \<Rightarrow> resource list
       \<Rightarrow> py_error + (string \<Rightarrow> nat \<Rightarrow> (real \<times> int) list)" where
  "build_index retrieve df = (if df = [] then Inl ValueError else Inr retrieve)"

text \<open>
  The Smart Search page: the index is built, and then the query is handled,
  \<^verbatim>\<open>if query: results = search(query, k=5)\<close>. An exception of either step escapes
  the page; \<open>Inr None\<close> is the page on which no search was run.
\<close>

definition smart_search ::
    "(string \<Rightarrow> nat \<Rightarrow> (real \<times> int) list) \<Rightarrow> resource list \<Rightarrow> string
       \<Rightarrow> py_error + (resource \<times> real) list option" where
  "smart_search retrieve df query =
     (case build_index retrieve df of
        Inl err \<Rightarrow> Inl err
      | Inr index \<Rightarrow>
          if query \<noteq> '''' then
            (case search index df query 5 of
               Inl err \<Rightarrow> Inl err
             | Inr results \<Rightarrow> Inr (Some results))
          else Inr None)"

section \<open>Notions of the specification\<close>

text \<open>
  A ledger row holds ISO dates when both of its date cells parse. The closed-interval
  rule, in the words of the specification: \<open>[s1,e1]\<close> and \<open>[s2,e2]\<close> overlap iff
  \<open>s1 \<le> e2\<close> and \<open>e1 \<ge> s2\<close>.
\<close>

definition iso_dates :: "request \<Rightarrow> bool" where
  "iso_dates r = (strptime (start_date r) \<noteq> None \<and> strptime (end_date r) \<noteq> None)"

definition ranges_overlap :: "date \<Rightarrow> date \<Rightarrow> date \<Rightarrow> date \<Rightarrow> bool" where
  "ranges_overlap s1 e1 s2 e2 = (date_le s1 e2 \<and> date_ge e1 s2)"

definition confirmed_for :: "int \<Rightarrow> request \<Rightarrow> bool" where
  "confirmed_for rid r = (resource_id r = rid \<and> status r = ''Confirmed'')"

definition overlaps_row :: "date \<Rightarrow> date \<Rightarrow> request \<Rightarrow> bool" where
  "overlaps_row s_date e_date r =
     ranges_overlap s_date e_date (the (strptime (start_date r))) (the (strptime (end_date r)))"


text \<open>The row that \<^verbatim>\<open>resources_df.iloc[idx]\<close> reads when \<open>idx\<close> is in range.\<close>

definition row_at :: "'a list \<Rightarrow> int \<Rightarrow> 'a" where
  "row_at df idx = df ! nat (if idx < 0 then int (length df) + idx else idx)"

section \<open>Sample data\<close>

definition ymd :: "nat \<Rightarrow> nat \<Rightarrow> nat \<Rightarrow> date" where
  "ymd y m d = \<lparr>year = y, month = m, day = d\<rparr>"

definition drill :: resource where
  "drill = \<lparr>id_col = 1, title = ''Drill'', category = ''Tools'',
             description = ''Cordless drill'', location = ''Pune'',
             availability_start = ''2025-06-02'', availability_end = ''2025-06-30'',
             condition = ''Good'', rating = 4\<rparr>"

definition june_booking :: request where
  "june_booking = \<lparr>request_id = 1, user_name = ''Asha'', resource_id = 1,
                    resource_title = Title ''Drill'', start_date = ''2025-06-02'',
                    end_date = ''2025-06-10'', status = ''Confirmed''\<rparr>"

definition listed :: app_state where
  "listed = \<lparr>resources_df = [drill], requests_df = []\<rparr>"

definition booked :: app_state where
  "booked = \<lparr>resources_df = [drill\<lparr>availability_start := '''', availability_end := ''''\<rparr>],
              requests_df = [june_booking]\<rparr>"

definition waitlisted :: app_state where
  "waitlisted =
     booked\<lparr>requests_df :=
       [june_booking,
        \<lparr>request_id = 2, user_name = ''Ravi'', resource_id = 1,
          resource_title = Title ''Drill'', start_date = ''2025-06-05'',
          end_date = ''2025-06-07'', status = ''Waitlist''\<rparr>]\<rparr>"

definition sample_run :: "action list" where
  "sample_run =
     [Offer (ymd 2025 5 20) ''Drill'' ''Tools'' ''Cordless drill'' ''Pune''
        (ymd 2025 6 2) (ymd 2025 6 30) ''Good'' 4,
      Submit (ymd 2025 5 20) ''Asha'' 1 (ymd 2025 6 2) (ymd 2025 6 10),
      Submit (ymd 2025 5 20) ''Ravi'' 1 (ymd 2025 6 5) (ymd 2025 6 7)]"

text \<open>
  A column of identifiers in which none is repeated and every identifier is positive
  and at most the number of rows.
\<close>

definition numbered :: "int list \<Rightarrow> bool" where
  "numbered ids = (distinct ids \<and> list_all (\<lambda>x. 0 < x \<and> x \<le> int (length ids)) ids)"

text \<open>A column of 64-bit identifiers all below the largest 64-bit integer, so that
  one more than its maximum does not wrap around.\<close>

definition below_max64 :: "int list \<Rightarrow> bool" where
  "below_max64 ids = list_all (\<lambda>x. - (2 ^ 63) \<le> x \<and> x < 2 ^ 63 - 1) ids"

text \<open>A ledger whose one request has the largest 64-bit identifier.\<close>

definition last_id_ledger :: app_state where
  "last_id_ledger =
     booked\<lparr>requests_df := [june_booking\<lparr>request_id := 9223372036854775807\<rparr>]\<rparr>"

text \<open>A ledger in which every status is one of the two that the booking path writes.\<close>

definition booking_statuses :: "request list \<Rightarrow> bool" where
  "booking_statuses ledger =
     list_all (\<lambda>r. status r = ''Confirmed'' \<or> status r = ''Waitlist'') ledger"

text \<open>Both identifier columns of the two frames are numbered.\<close>

definition ids_invariant :: "app_state \<Rightarrow> bool" where
  "ids_invariant st =
     (numbered (map id_col (resources_df st)) \<and>
      numbered (map request_id (requests_df st)))"

text \<open>
  The query phase in the words of the specification: of the entries retrieved, those
  of negative distance are discarded, the first \<open>k\<close> of the others are kept in the
  order retrieved, and each is given the score \<open>max(1 - d/2, 0)\<close>.
\<close>

definition spec_search :: "resource list \<Rightarrow> nat \<Rightarrow> (real \<times> int) list \<Rightarrow> (resource \<times> real) list" where
  "spec_search df k retrieved =
     map (\<lambda>(d, i). (row_at df i, max (1 - d / 2) 0))
       (take k (filter (\<lambda>(d, i). 0 \<le> d) retrieved))"

text \<open>What the index contract gives for the positions: each is a row position of the
  frame, counted from the start or, when negative, from the end.\<close>

definition positions_in :: "resource list \<Rightarrow> (real \<times> int) list \<Rightarrow> bool" where
  "positions_in df retrieved =
     list_all (\<lambda>(d, i). 0 \<le> d \<longrightarrow> - int (length df) \<le> i \<and> i < int (length df)) retrieved"

text \<open>A store of ten resources and a stub of the index that returns them in order, at
  the distances 0, 2/5, 4/5 and so on, whatever the query.\<close>

definition ten_resources :: "resource list" where
  "ten_resources = map (\<lambda>n. drill\<lparr>id_col := n\<rparr>) [1, 2, 3, 4, 5, 6, 7, 8, 9, 10]"

definition nearest_ten :: "string \<Rightarrow> nat \<Rightarrow> (real \<times> int) list" where
  "nearest_ten query n =
     take n [(0, 0), (2 / 5, 1), (4 / 5, 2), (6 / 5, 3), (8 / 5, 4),
             (2, 5), (12 / 5, 6), (14 / 5, 7), (16 / 5, 8), (18 / 5, 9)]"

definition top_five :: "(resource \<times> real) list" where
  "top_five =
     [(drill\<lparr>id_col := 1\<rparr>, 1), (drill\<lparr>id_col := 2\<rparr>, 4 / 5), (drill\<lparr>id_col := 3\<rparr>, 3 / 5),
      (drill\<lparr>id_col := 4\<rparr>, 2 / 5), (drill\<lparr>id_col := 5\<rparr>, 1 / 5)]"

section \<open>Rendering and parsing a date\<close>









lemmas date_eval =
  strptime_def month_group_def day_group_def is_digit_def digit_val_def digit_def
  strftime_def valid_date_def days_in_month_def leap_def
  date_lt_def date_le_def date_gt_def date_ge_def

section \<open>The availability check decides overlap\<close>

lemma overlap_loop_iso:
  "\<forall>r\<in>set rows. iso_dates r \<Longrightarrow>
   overlap_loop s_date e_date rows = Inr (\<not> (\<exists>r\<in>set rows. overlaps_row s_date e_date r))"
  by (induction rows) (auto simp: iso_dates_def overlaps_row_def ranges_overlap_def)

lemma is_resource_available_iso:
  assumes "\<forall>r\<in>set ledger. confirmed_for rid r \<longrightarrow> iso_dates r"
  shows "is_resource_available rid s_date e_date ledger =
           Inr (\<not> (\<exists>r\<in>set ledger. confirmed_for rid r \<and> overlaps_row s_date e_date r))"
proof -
  let ?rows = "filter (\<lambda>r. resource_id r = rid \<and> status r = ''Confirmed'') ledger"
  have "\<forall>r\<in>set ?rows. iso_dates r"
    using assms by (simp add: confirmed_for_def)
  then have "overlap_loop s_date e_date ?rows =
               Inr (\<not> (\<exists>r\<in>set ?rows. overlaps_row s_date e_date r))"
    by (rule overlap_loop_iso)
  then show ?thesis
    by (auto simp: is_resource_available_def confirmed_for_def)
qed

text \<open>
  C1. For a ledger whose Confirmed rows of the resource hold ISO dates,
  \<open>is_resource_available\<close> returns false exactly when the candidate range overlaps,
  under the closed-interval rule, a row of the ledger with that resource id and status
  Confirmed, and true otherwise; with no Confirmed row for the resource it returns
  true.
\<close>

theorem is_resource_available_iff_overlap:
  "(\<forall>r\<in>set ledger. confirmed_for rid r \<longrightarrow> iso_dates r) \<longrightarrow>
     (is_resource_available rid s_date e_date ledger = Inr False \<longleftrightarrow>
        (\<exists>r\<in>set ledger. resource_id r = rid \<and> status r = ''Confirmed'' \<and>
           ranges_overlap s_date e_date
             (the (strptime (start_date r))) (the (strptime (end_date r))))) \<and>
     (is_resource_available rid s_date e_date ledger = Inr True \<longleftrightarrow>
        \<not> (\<exists>r\<in>set ledger. resource_id r = rid \<and> status r = ''Confirmed'' \<and>
           ranges_overlap s_date e_date
             (the (strptime (start_date r))) (the (strptime (end_date r))))) \<and>
     ((\<forall>r\<in>set ledger. \<not> (resource_id r = rid \<and> status r = ''Confirmed'')) \<longrightarrow>
        is_resource_available rid s_date e_date ledger = Inr True)"
proof
  assume iso: "\<forall>r\<in>set ledger. confirmed_for rid r \<longrightarrow> iso_dates r"
  have eq: "is_resource_available rid s_date e_date ledger =
          Inr (\<not> (\<exists>r\<in>set ledger. confirmed_for rid r \<and> overlaps_row s_date e_date r))"
    using iso by (rule is_resource_available_iso)
  show "(is_resource_available rid s_date e_date ledger = Inr False \<longleftrightarrow>
        (\<exists>r\<in>set ledger. resource_id r = rid \<and> status r = ''Confirmed'' \<and>
           ranges_overlap s_date e_date
             (the (strptime (start_date r))) (the (strptime (end_date r))))) \<and>
     (is_resource_available rid s_date e_date ledger = Inr True \<longleftrightarrow>
        \<not> (\<exists>r\<in>set ledger. resource_id r = rid \<and> status r = ''Confirmed'' \<and>
           ranges_overlap s_date e_date
             (the (strptime (start_date r))) (the (strptime (end_date r))))) \<and>
     ((\<forall>r\<in>set ledger. \<not> (resource_id r = rid \<and> status r = ''Confirmed'')) \<longrightarrow>
        is_resource_available rid s_date e_date ledger = Inr True)"
    unfolding eq by (auto simp: confirmed_for_def overlaps_row_def)
qed

theorem is_resource_available_iff_overlap_witness:
  "confirmed_for 1 june_booking \<and> iso_dates june_booking \<and>
   is_resource_available 1 (ymd 2025 6 5) (ymd 2025 6 7) [june_booking] = Inr False \<and>
   is_resource_available 1 (ymd 2025 6 11) (ymd 2025 6 15) [june_booking] = Inr True \<and>
   is_resource_available 2 (ymd 2025 6 5) (ymd 2025 6 7) [june_booking] = Inr True"
proof -
  have iso1: "\<forall>r\<in>set [june_booking]. confirmed_for 1 r \<longrightarrow> iso_dates r"
    by (simp add: iso_dates_def june_booking_def date_eval)
  have iso2: "\<forall>r\<in>set [june_booking]. confirmed_for 2 r \<longrightarrow> iso_dates r"
    by (simp add: confirmed_for_def june_booking_def)
  have inside: "\<exists>r\<in>set [june_booking]. resource_id r = 1 \<and> status r = ''Confirmed'' \<and>
           ranges_overlap (ymd 2025 6 5) (ymd 2025 6 7)
             (the (strptime (start_date r))) (the (strptime (end_date r)))"
    by (simp add: june_booking_def ranges_overlap_def ymd_def date_eval)
  have after: "\<not> (\<exists>r\<in>set [june_booking]. resource_id r = 1 \<and> status r = ''Confirmed'' \<and>
           ranges_overlap (ymd 2025 6 11) (ymd 2025 6 15)
             (the (strptime (start_date r))) (the (strptime (end_date r))))"
    by (simp add: june_booking_def ranges_overlap_def ymd_def date_eval)
  have other: "\<forall>r\<in>set [june_booking]. \<not> (resource_id r = 2 \<and> status r = ''Confirmed'')"
    by (simp add: june_booking_def)
  have a: "is_resource_available 1 (ymd 2025 6 5) (ymd 2025 6 7) [june_booking] = Inr False"
    using is_resource_available_iff_overlap
            [of "[june_booking]" 1 "ymd 2025 6 5" "ymd 2025 6 7"] iso1 inside
    by blast
  have b: "is_resource_available 1 (ymd 2025 6 11) (ymd 2025 6 15) [june_booking] = Inr True"
    using is_resource_available_iff_overlap
            [of "[june_booking]" 1 "ymd 2025 6 11" "ymd 2025 6 15"] iso1 after
    by blast
  have c: "is_resource_available 2 (ymd 2025 6 5) (ymd 2025 6 7) [june_booking] = Inr True"
    using is_resource_available_iff_overlap
            [of "[june_booking]" 2 "ymd 2025 6 5" "ymd 2025 6 7"] iso2 other
    by blast
  have d: "confirmed_for 1 june_booking \<and> iso_dates june_booking"
    by (simp add: confirmed_for_def iso_dates_def june_booking_def date_eval)
  from d a b c show ?thesis by blast
qed

section \<open>The request form: validation and frame\<close>

lemma wrap64_id: "- (2 ^ 63) \<le> n \<Longrightarrow> n < 2 ^ 63 \<Longrightarrow> wrap64 n = n"
  by (simp add: wrap64_def)

text \<open>Below the largest 64-bit integer the addition does not wrap around.\<close>

lemma next_id_Max:
  assumes "below_max64 ids"
  shows "next_id ids = (if ids = [] then 1 else Max (set ids) + 1)"
proof (cases ids)
  case Nil
  then show ?thesis by (simp add: next_id_def)
next
  case (Cons x xs)
  then have ne: "ids \<noteq> []" by simp
  have "Max (set ids) \<in> set ids"
    using ne by (intro Max_in) simp_all
  with assms have "- (2 ^ 63) \<le> Max (set ids) \<and> Max (set ids) < 2 ^ 63 - 1"
    by (simp add: below_max64_def list_all_iff)
  then have w: "wrap64 (Max (set ids) + 1) = Max (set ids) + 1"
    by (intro wrap64_id) simp_all
  have fm: "fold max xs x = Max (set ids)"
    unfolding Cons by (rule Max.set_eq_fold [symmetric])
  have "next_id ids = wrap64 (fold max xs x + 1)"
    by (simp add: next_id_def Cons)
  also have "\<dots> = Max (set ids) + 1"
    by (simp only: fm w)
  finally show ?thesis
    using ne by simp
qed

lemma loc_assign_clear:
  "loc_assign rid (\<lambda>r. r\<lparr>availability_end := ''''\<rparr>)
     (loc_assign rid (\<lambda>r. r\<lparr>availability_start := ''''\<rparr>) df) =
   map (\<lambda>r. if id_col r = rid then r\<lparr>availability_start := '''', availability_end := ''''\<rparr>
             else r) df"
  by (simp add: loc_assign_def)

lemma loc_assign_absent:
  "rid \<notin> id_col ` set df \<Longrightarrow> loc_assign rid upd df = df"
  by (induction df) (auto simp: loc_assign_def)

lemma submit_request_valid:
  assumes "fst (validate_dates today s_date e_date)" "strip u \<noteq> ''''"
  shows "submit_request today u rid s_date e_date st =
     (case is_resource_available rid s_date e_date (requests_df st) of
        Inl err \<Rightarrow> (Raised err, st)
      | Inr available \<Rightarrow>
          if available
          then (St_success,
                add_request u rid (squeeze_title (resources_df st) rid) s_date e_date
                  ''Confirmed'' st)
          else (St_warning,
                add_request u rid (squeeze_title (resources_df st) rid) s_date e_date
                  ''Waitlist'' st))"
  using assms by (cases "validate_dates today s_date e_date") (simp add: submit_request_def Let_def)

lemma add_request_Confirmed:
  "add_request u rid ttl s_date e_date ''Confirmed'' st =
     \<lparr>resources_df =
        map (\<lambda>r. if id_col r = rid
                  then r\<lparr>availability_start := '''', availability_end := ''''\<rparr> else r)
          (resources_df st),
      requests_df = requests_df st @
        [\<lparr>request_id = next_id (map request_id (requests_df st)),
          user_name = u, resource_id = rid, resource_title = ttl,
          start_date = strftime s_date, end_date = strftime e_date,
          status = ''Confirmed''\<rparr>]\<rparr>"
  by (simp add: add_request_def loc_assign_clear)

lemma add_request_Waitlist:
  "add_request u rid ttl s_date e_date ''Waitlist'' st =
     st\<lparr>requests_df := requests_df st @
        [\<lparr>request_id = next_id (map request_id (requests_df st)),
          user_name = u, resource_id = rid, resource_title = ttl,
          start_date = strftime s_date, end_date = strftime e_date,
          status = ''Waitlist''\<rparr>]\<rparr>"
  by (simp add: add_request_def)

text \<open>
  C3. A submission that passes validation, on a ledger whose Confirmed rows of the
  resource hold ISO dates, appends exactly one request. When the availability check
  returns true the request is Confirmed and the rows of the store with that id get
  both availability cells emptied, every other cell and row staying as it was; when
  the check returns false the request is Waitlist and the store is the same; and the
  check returns one of the two.
\<close>

theorem submit_request_frame:
  "fst (validate_dates today s_date e_date) \<and> strip u \<noteq> '''' \<and>
   (\<forall>r\<in>set (requests_df st). confirmed_for rid r \<longrightarrow> iso_dates r) \<longrightarrow>
   (is_resource_available rid s_date e_date (requests_df st) = Inr True \<or>
    is_resource_available rid s_date e_date (requests_df st) = Inr False) \<and>
   (is_resource_available rid s_date e_date (requests_df st) = Inr True \<longrightarrow>
      submit_request today u rid s_date e_date st =
        (St_success,
         \<lparr>resources_df =
            map (\<lambda>r. if id_col r = rid
                      then r\<lparr>availability_start := '''', availability_end := ''''\<rparr> else r)
              (resources_df st),
          requests_df = requests_df st @
            [\<lparr>request_id = next_id (map request_id (requests_df st)),
              user_name = u, resource_id = rid,
              resource_title = squeeze_title (resources_df st) rid,
              start_date = strftime s_date, end_date = strftime e_date,
              status = ''Confirmed''\<rparr>]\<rparr>)) \<and>
   (is_resource_available rid s_date e_date (requests_df st) = Inr False \<longrightarrow>
      submit_request today u rid s_date e_date st =
        (St_warning,
         st\<lparr>requests_df := requests_df st @
            [\<lparr>request_id = next_id (map request_id (requests_df st)),
              user_name = u, resource_id = rid,
              resource_title = squeeze_title (resources_df st) rid,
              start_date = strftime s_date, end_date = strftime e_date,
              status = ''Waitlist''\<rparr>]\<rparr>)) \<and>
   length (requests_df (snd (submit_request today u rid s_date e_date st))) =
     length (requests_df st) + 1"
proof
  assume h: "fst (validate_dates today s_date e_date) \<and> strip u \<noteq> '''' \<and>
   (\<forall>r\<in>set (requests_df st). confirmed_for rid r \<longrightarrow> iso_dates r)"
  then have v: "fst (validate_dates today s_date e_date)" and n: "strip u \<noteq> ''''"
    and iso: "\<forall>r\<in>set (requests_df st). confirmed_for rid r \<longrightarrow> iso_dates r"
    by simp_all
  note sub = submit_request_valid [OF v n, of rid st]
  obtain b where b: "is_resource_available rid s_date e_date (requests_df st) = Inr b"
    using is_resource_available_iso [OF iso] by blast
  show "(is_resource_available rid s_date e_date (requests_df st) = Inr True \<or>
    is_resource_available rid s_date e_date (requests_df st) = Inr False) \<and>
   (is_resource_available rid s_date e_date (requests_df st) = Inr True \<longrightarrow>
      submit_request today u rid s_date e_date st =
        (St_success,
         \<lparr>resources_df =
            map (\<lambda>r. if id_col r = rid
                      then r\<lparr>availability_start := '''', availability_end := ''''\<rparr> else r)
              (resources_df st),
          requests_df = requests_df st @
            [\<lparr>request_id = next_id (map request_id (requests_df st)),
              user_name = u, resource_id = rid,
              resource_title = squeeze_title (resources_df st) rid,
              start_date = strftime s_date, end_date = strftime e_date,
              status = ''Confirmed''\<rparr>]\<rparr>)) \<and>
   (is_resource_available rid s_date e_date (requests_df st) = Inr False \<longrightarrow>
      submit_request today u rid s_date e_date st =
        (St_warning,
         st\<lparr>requests_df := requests_df st @
            [\<lparr>request_id = next_id (map request_id (requests_df st)),
              user_name = u, resource_id = rid,
              resource_title = squeeze_title (resources_df st) rid,
              start_date = strftime s_date, end_date = strftime e_date,
              status = ''Waitlist''\<rparr>]\<rparr>)) \<and>
   length (requests_df (snd (submit_request today u rid s_date e_date st))) =
     length (requests_df st) + 1"
    unfolding sub b
    by (cases b) (simp_all add: add_request_Confirmed add_request_Waitlist)
qed

lemma validate_may_june:
  "fst (validate_dates (ymd 2025 5 20) (ymd 2025 6 2) (ymd 2025 6 10))"
  "fst (validate_dates (ymd 2025 5 20) (ymd 2025 6 5) (ymd 2025 6 7))"
  "fst (validate_dates (ymd 2025 5 20) (ymd 2025 6 11) (ymd 2025 6 15))"
  by (simp_all add: validate_dates_def ymd_def date_eval)

lemma strip_names: "strip ''Asha'' \<noteq> ''''" "strip ''Ravi'' \<noteq> ''''"
  by (simp_all add: strip_def isspace_def)

lemma strftime_june:
  "strftime (ymd 2025 6 2) = ''2025-06-02''"
  "strftime (ymd 2025 6 10) = ''2025-06-10''"
  "strftime (ymd 2025 6 5) = ''2025-06-05''"
  "strftime (ymd 2025 6 7) = ''2025-06-07''"
  "strftime (ymd 2025 6 11) = ''2025-06-11''"
  "strftime (ymd 2025 6 15) = ''2025-06-15''"
  by code_simp+

lemma available_listed:
  "is_resource_available 1 (ymd 2025 6 2) (ymd 2025 6 10) (requests_df listed) = Inr True"
  by (simp add: is_resource_available_def listed_def)

lemma available_booked:
  "is_resource_available 1 (ymd 2025 6 5) (ymd 2025 6 7) (requests_df booked) = Inr False"
  "is_resource_available 1 (ymd 2025 6 11) (ymd 2025 6 15) (requests_df booked) = Inr True"
  "is_resource_available 7 (ymd 2025 6 5) (ymd 2025 6 7) (requests_df booked) = Inr True"
  by (simp_all add: is_resource_available_def booked_def june_booking_def ymd_def date_eval)

theorem submit_request_frame_witness:
  "fst (validate_dates (ymd 2025 5 20) (ymd 2025 6 2) (ymd 2025 6 10)) \<and>
   strip ''Asha'' \<noteq> '''' \<and>
   is_resource_available 1 (ymd 2025 6 2) (ymd 2025 6 10) (requests_df listed) = Inr True \<and>
   submit_request (ymd 2025 5 20) ''Asha'' 1 (ymd 2025 6 2) (ymd 2025 6 10) listed =
     (St_success, booked) \<and>
   is_resource_available 1 (ymd 2025 6 5) (ymd 2025 6 7) (requests_df booked) = Inr False \<and>
   submit_request (ymd 2025 5 20) ''Ravi'' 1 (ymd 2025 6 5) (ymd 2025 6 7) booked =
     (St_warning,
      booked\<lparr>requests_df :=
        [june_booking,
         \<lparr>request_id = 2, user_name = ''Ravi'', resource_id = 1,
           resource_title = Title ''Drill'', start_date = ''2025-06-05'',
           end_date = ''2025-06-07'', status = ''Waitlist''\<rparr>]\<rparr>)"
proof -
  have iso1: "\<forall>r\<in>set (requests_df listed). confirmed_for 1 r \<longrightarrow> iso_dates r"
    by (simp add: listed_def)
  have iso2: "\<forall>r\<in>set (requests_df booked). confirmed_for 1 r \<longrightarrow> iso_dates r"
    by (simp add: booked_def iso_dates_def june_booking_def date_eval)
  have a: "submit_request (ymd 2025 5 20) ''Asha'' 1 (ymd 2025 6 2) (ymd 2025 6 10) listed =
     (St_success, booked)"
    using submit_request_frame
            [of "ymd 2025 5 20" "ymd 2025 6 2" "ymd 2025 6 10" "''Asha''" listed 1]
          validate_may_june(1) strip_names(1) iso1 available_listed
    by (simp add: strftime_june)
       (simp add: listed_def booked_def drill_def june_booking_def next_id_def wrap64_def
          squeeze_title_def)
  have b: "submit_request (ymd 2025 5 20) ''Ravi'' 1 (ymd 2025 6 5) (ymd 2025 6 7) booked =
     (St_warning,
      booked\<lparr>requests_df :=
        [june_booking,
         \<lparr>request_id = 2, user_name = ''Ravi'', resource_id = 1,
           resource_title = Title ''Drill'', start_date = ''2025-06-05'',
           end_date = ''2025-06-07'', status = ''Waitlist''\<rparr>]\<rparr>)"
    using submit_request_frame
            [of "ymd 2025 5 20" "ymd 2025 6 5" "ymd 2025 6 7" "''Ravi''" booked 1]
          validate_may_june(2) strip_names(2) iso2 available_booked(1)
    by (simp add: strftime_june)
       (simp add: booked_def drill_def june_booking_def next_id_def wrap64_def squeeze_title_def)
  from validate_may_june(1) strip_names(1) available_listed a available_booked(1) b
  show ?thesis by blast
qed

text \<open>
  C4. Validation runs in order and stops at the first failure. A start date after the
  end date is refused with the message of the invalid range
  (\<open>InvalidDateRange\<close>); otherwise a date before today is refused with the message
  of the past date (\<open>PastDate\<close>); otherwise a name that is empty once stripped is
  refused with the message of the missing name (\<open>MissingUserName\<close>). In each case
  the two data frames are returned as they were: no request is appended and the store
  is unchanged.
\<close>

theorem submit_request_validation:
  "(date_gt s_date e_date \<longrightarrow>
      submit_request today u rid s_date e_date st =
        (St_error ''Start date must be before or equal to end date.'', st)) \<and>
   (\<not> date_gt s_date e_date \<and> (date_lt s_date today \<or> date_lt e_date today) \<longrightarrow>
      submit_request today u rid s_date e_date st =
        (St_error ''Dates cannot be in the past.'', st)) \<and>
   (\<not> date_gt s_date e_date \<and> \<not> date_lt s_date today \<and> \<not> date_lt e_date today \<and>
    strip u = '''' \<longrightarrow>
      submit_request today u rid s_date e_date st =
        (St_error ''Please enter your name.'', st))"
  by (simp add: submit_request_def validate_dates_def Let_def)

theorem submit_request_validation_witness:
  "date_gt (ymd 2025 6 10) (ymd 2025 6 2) \<and>
   submit_request (ymd 2025 5 20) '''' 1 (ymd 2025 6 10) (ymd 2025 6 2) booked =
     (St_error ''Start date must be before or equal to end date.'', booked) \<and>
   \<not> date_gt (ymd 2025 4 29) (ymd 2025 4 30) \<and> date_lt (ymd 2025 4 30) (ymd 2025 5 20) \<and>
   submit_request (ymd 2025 5 20) '''' 1 (ymd 2025 4 29) (ymd 2025 4 30) booked =
     (St_error ''Dates cannot be in the past.'', booked) \<and>
   \<not> date_gt (ymd 2025 6 11) (ymd 2025 6 15) \<and> \<not> date_lt (ymd 2025 6 11) (ymd 2025 5 20) \<and>
   \<not> date_lt (ymd 2025 6 15) (ymd 2025 5 20) \<and> strip '' '' = '''' \<and>
   submit_request (ymd 2025 5 20) '' '' 1 (ymd 2025 6 11) (ymd 2025 6 15) booked =
     (St_error ''Please enter your name.'', booked)"
proof -
  have a: "date_gt (ymd 2025 6 10) (ymd 2025 6 2)"
    by (simp add: ymd_def date_eval)
  have b: "\<not> date_gt (ymd 2025 4 29) (ymd 2025 4 30)" "date_lt (ymd 2025 4 30) (ymd 2025 5 20)"
    by (simp_all add: ymd_def date_eval)
  have c: "\<not> date_gt (ymd 2025 6 11) (ymd 2025 6 15)" "\<not> date_lt (ymd 2025 6 11) (ymd 2025 5 20)"
    "\<not> date_lt (ymd 2025 6 15) (ymd 2025 5 20)" "strip '' '' = ''''"
    by (simp_all add: ymd_def date_eval strip_def isspace_def)
  show ?thesis
    using a b c
      submit_request_validation [of "ymd 2025 6 10" "ymd 2025 6 2" "ymd 2025 5 20" "''''" 1 booked]
      submit_request_validation [of "ymd 2025 4 29" "ymd 2025 4 30" "ymd 2025 5 20" "''''" 1 booked]
      submit_request_validation [of "ymd 2025 6 11" "ymd 2025 6 15" "ymd 2025 5 20" "'' ''" 1 booked]
    by blast
qed

text \<open>
  C10. The booking path never looks the resource id up in the store. For an id that no
  row of the store has, a submission that passes validation and whose availability
  check returns still appends one request for that id, Confirmed or Waitlist as the
  check says, and is reported as a booking or a waitlisting, never as an error; the
  assignment to the store selects no row and the store is what it was.
\<close>

theorem submit_request_absent_resource:
  "rid \<notin> id_col ` set (resources_df st) \<and> fst (validate_dates today s_date e_date) \<and>
   strip u \<noteq> '''' \<and> is_resource_available rid s_date e_date (requests_df st) = Inr b \<longrightarrow>
   submit_request today u rid s_date e_date st =
     (if b then St_success else St_warning,
      st\<lparr>requests_df := requests_df st @
        [\<lparr>request_id = next_id (map request_id (requests_df st)),
          user_name = u, resource_id = rid, resource_title = Titles [],
          start_date = strftime s_date, end_date = strftime e_date,
          status = (if b then ''Confirmed'' else ''Waitlist'')\<rparr>]\<rparr>)"
proof
  assume h: "rid \<notin> id_col ` set (resources_df st) \<and> fst (validate_dates today s_date e_date) \<and>
   strip u \<noteq> '''' \<and> is_resource_available rid s_date e_date (requests_df st) = Inr b"
  then have absent: "rid \<notin> id_col ` set (resources_df st)"
    and v: "fst (validate_dates today s_date e_date)" and n: "strip u \<noteq> ''''"
    and av: "is_resource_available rid s_date e_date (requests_df st) = Inr b"
    by simp_all
  have none: "filter (\<lambda>r. id_col r = rid) (resources_df st) = []"
    using absent by (auto simp: filter_empty_conv)
  have ttl: "squeeze_title (resources_df st) rid = Titles []"
    by (simp add: squeeze_title_def none)
  have same: "map (\<lambda>r. if id_col r = rid
                  then r\<lparr>availability_start := '''', availability_end := ''''\<rparr> else r)
          (resources_df st) = resources_df st"
    using loc_assign_absent
            [OF absent, of "\<lambda>r. r\<lparr>availability_start := '''', availability_end := ''''\<rparr>"]
    by (simp add: loc_assign_def)
  show "submit_request today u rid s_date e_date st =
     (if b then St_success else St_warning,
      st\<lparr>requests_df := requests_df st @
        [\<lparr>request_id = next_id (map request_id (requests_df st)),
          user_name = u, resource_id = rid, resource_title = Titles [],
          start_date = strftime s_date, end_date = strftime e_date,
          status = (if b then ''Confirmed'' else ''Waitlist'')\<rparr>]\<rparr>)"
    unfolding submit_request_valid [OF v n] av ttl
    by (cases b) (simp_all add: add_request_Confirmed add_request_Waitlist same)
qed

theorem submit_request_absent_resource_witness:
  "7 \<notin> id_col ` set (resources_df booked) \<and>
   fst (validate_dates (ymd 2025 5 20) (ymd 2025 6 5) (ymd 2025 6 7)) \<and>
   strip ''Ravi'' \<noteq> '''' \<and>
   is_resource_available 7 (ymd 2025 6 5) (ymd 2025 6 7) (requests_df booked) = Inr True \<and>
   submit_request (ymd 2025 5 20) ''Ravi'' 7 (ymd 2025 6 5) (ymd 2025 6 7) booked =
     (St_success,
      booked\<lparr>requests_df :=
        [june_booking,
         \<lparr>request_id = 2, user_name = ''Ravi'', resource_id = 7,
           resource_title = Titles [], start_date = ''2025-06-05'',
           end_date = ''2025-06-07'', status = ''Confirmed''\<rparr>]\<rparr>)"
proof -
  have absent: "7 \<notin> id_col ` set (resources_df booked)"
    by (simp add: booked_def drill_def)
  have "submit_request (ymd 2025 5 20) ''Ravi'' 7 (ymd 2025 6 5) (ymd 2025 6 7) booked =
     (St_success,
      booked\<lparr>requests_df :=
        [june_booking,
         \<lparr>request_id = 2, user_name = ''Ravi'', resource_id = 7,
           resource_title = Titles [], start_date = ''2025-06-05'',
           end_date = ''2025-06-07'', status = ''Confirmed''\<rparr>]\<rparr>)"
    using submit_request_absent_resource
            [of 7 booked "ymd 2025 5 20" "ymd 2025 6 5" "ymd 2025 6 7" "''Ravi''" True]
          absent validate_may_june(2) strip_names(2) available_booked(3)
    by (simp add: strftime_june) (simp add: booked_def june_booking_def next_id_def wrap64_def)
  with absent validate_may_june(2) strip_names(2) available_booked(3)
  show ?thesis by blast
qed

section \<open>A second booking of the same resource\<close>




lemma first_booking_listed:
  "submit_request (ymd 2025 5 20) ''Asha'' 1 (ymd 2025 6 2) (ymd 2025 6 10) listed =
     (St_success, booked)"
  unfolding submit_request_valid [OF validate_may_june(1) strip_names(1)] available_listed
  by (simp add: add_request_Confirmed strftime_june)
     (simp add: listed_def booked_def drill_def june_booking_def next_id_def wrap64_def squeeze_title_def)




section \<open>Identifiers and statuses along a run\<close>

lemma next_id_greater: "below_max64 ids \<Longrightarrow> x \<in> set ids \<Longrightarrow> x < next_id ids"
proof -
  assume bm: "below_max64 ids" and x: "x \<in> set ids"
  then have "ids \<noteq> []" by auto
  moreover have "x \<le> Max (set ids)" using x by simp
  ultimately show ?thesis by (simp add: next_id_Max [OF bm])
qed

lemma numbered_below_max64:
  assumes "numbered ids" "length ids < 9223372036854775807"
  shows "below_max64 ids"
proof -
  have "- (2 ^ 63) \<le> x \<and> x < 2 ^ 63 - 1" if "x \<in> set ids" for x :: int
  proof -
    from assms(1) that have "0 < x" "x \<le> int (length ids)"
      by (simp_all add: numbered_def list_all_iff)
    with assms(2) show ?thesis by simp
  qed
  then show ?thesis
    by (simp add: below_max64_def list_all_iff)
qed

text \<open>
  Appending the next identifier to a numbered column keeps it numbered, as long as the
  column has fewer than \<open>2^63 - 1\<close> rows.
\<close>

lemma numbered_snoc:
  assumes "numbered ids" "length ids < 9223372036854775807"
  shows "numbered (ids @ [next_id ids])"
proof -
  note bm = numbered_below_max64 [OF assms]
  have fresh: "next_id ids \<notin> set ids"
    using next_id_greater [OF bm, of "next_id ids"] by auto
  have rng: "0 < next_id ids \<and> next_id ids \<le> int (length ids) + 1"
  proof (cases "ids = []")
    case True
    then show ?thesis by (simp add: next_id_def)
  next
    case False
    then have "Max (set ids) \<in> set ids"
      by (intro Max_in) simp_all
    with assms(1) have "0 < Max (set ids)" "Max (set ids) \<le> int (length ids)"
      by (simp_all add: numbered_def list_all_iff)
    with False show ?thesis
      by (simp add: next_id_Max [OF bm])
  qed
  have old: "0 < x \<and> x \<le> int (length ids) + 1" if "x \<in> set ids" for x
    using assms(1) that by (auto simp: numbered_def list_all_iff)
  from assms(1) fresh rng old show ?thesis
    by (auto simp: numbered_def list_all_iff)
qed

lemma add_request_requests:
  "requests_df (add_request u rid ttl s_date e_date stat st) =
     requests_df st @
       [\<lparr>request_id = next_id (map request_id (requests_df st)),
         user_name = u, resource_id = rid, resource_title = ttl,
         start_date = strftime s_date, end_date = strftime e_date, status = stat\<rparr>]"
  by (simp add: add_request_def Let_def)

lemma id_col_loc_assign:
  "(\<And>r. id_col (upd r) = id_col r) \<Longrightarrow> map id_col (loc_assign rid upd df) = map id_col df"
  by (induction df) (simp_all add: loc_assign_def)

lemma add_request_resource_ids:
  "map id_col (resources_df (add_request u rid ttl s_date e_date stat st)) =
     map id_col (resources_df st)"
  by (simp add: add_request_def Let_def id_col_loc_assign)

lemma submit_request_frames:
  "snd (submit_request today u rid s_date e_date st) = st \<or>
   snd (submit_request today u rid s_date e_date st) =
     add_request u rid (squeeze_title (resources_df st) rid) s_date e_date ''Confirmed'' st \<or>
   snd (submit_request today u rid s_date e_date st) =
     add_request u rid (squeeze_title (resources_df st) rid) s_date e_date ''Waitlist'' st"
  by (cases "validate_dates today s_date e_date")
     (simp add: submit_request_def Let_def split: sum.splits)

lemma offer_resource_frames:
  "snd (offer_resource today ttl cat descr loc s_date e_date cond rate st) = st \<or>
   snd (offer_resource today ttl cat descr loc s_date e_date cond rate st) =
     st\<lparr>resources_df := resources_df st @
          [\<lparr>id_col = next_id (map id_col (resources_df st)), title = ttl, category = cat,
            description = descr, location = loc, availability_start = strftime s_date,
            availability_end = strftime e_date, condition = cond, rating = rate\<rparr>]\<rparr>"
  by (cases "validate_dates today s_date e_date")
     (simp add: offer_resource_def Let_def)

lemma offer_resource_valid:
  assumes "fst (validate_dates today s_date e_date)" "strip ttl \<noteq> ''''" "strip loc \<noteq> ''''"
  shows "offer_resource today ttl cat descr loc s_date e_date cond rate st =
     (St_success,
      st\<lparr>resources_df := resources_df st @
          [\<lparr>id_col = next_id (map id_col (resources_df st)), title = ttl, category = cat,
            description = descr, location = loc, availability_start = strftime s_date,
            availability_end = strftime e_date, condition = cond, rating = rate\<rparr>]\<rparr>)"
  using assms
  by (cases "validate_dates today s_date e_date") (simp add: offer_resource_def Let_def)

lemma add_request_ids:
  assumes "ids_invariant st" "length (requests_df st) < 9223372036854775807"
  shows "ids_invariant (add_request u rid ttl s_date e_date stat st)"
  using assms numbered_snoc [of "map request_id (requests_df st)"]
  by (simp add: ids_invariant_def add_request_requests add_request_resource_ids)

lemma step_ids:
  assumes inv: "ids_invariant st"
    and res: "length (resources_df st) < 9223372036854775807"
    and req: "length (requests_df st) < 9223372036854775807"
  shows "ids_invariant (step st a)"
proof (cases a)
  case (Submit today u rid s_date e_date)
  show ?thesis
    using submit_request_frames [of today u rid s_date e_date st] inv
          add_request_ids [OF inv req]
    by (auto simp: Submit)
next
  case (Offer today ttl cat descr loc s_date e_date cond rate)
  show ?thesis
    using offer_resource_frames [of today ttl cat descr loc s_date e_date cond rate st] inv
          numbered_snoc [of "map id_col (resources_df st)"] res
    by (auto simp: Offer ids_invariant_def)
qed

text \<open>A step adds at most one row to each frame.\<close>

lemma step_lengths:
  "length (resources_df (step st a)) \<le> Suc (length (resources_df st)) \<and>
   length (requests_df (step st a)) \<le> Suc (length (requests_df st))"
proof (cases a)
  case (Submit today u rid s_date e_date)
  have "length (resources_df (add_request u rid ttl s_date e_date stat st)) =
          length (resources_df st)" for ttl stat
    using arg_cong [OF add_request_resource_ids [of u rid ttl s_date e_date stat st],
                    of length]
    by simp
  then show ?thesis
    using submit_request_frames [of today u rid s_date e_date st]
    by (auto simp: Submit add_request_requests)
next
  case (Offer today ttl cat descr loc s_date e_date cond rate)
  show ?thesis
    using offer_resource_frames [of today ttl cat descr loc s_date e_date cond rate st]
    by (auto simp: Offer)
qed

lemma foldl_step_ids:
  "ids_invariant st \<Longrightarrow>
   length (resources_df st) + length acts < 9223372036854775807 \<Longrightarrow>
   length (requests_df st) + length acts < 9223372036854775807 \<Longrightarrow>
   ids_invariant (foldl step st acts)"
proof (induction acts arbitrary: st)
  case Nil
  then show ?case by simp
next
  case (Cons a acts)
  have inv: "ids_invariant (step st a)"
    using Cons.prems by (intro step_ids) simp_all
  have "length (resources_df (step st a)) + length acts < 9223372036854775807"
       "length (requests_df (step st a)) + length acts < 9223372036854775807"
    using step_lengths [of st a] Cons.prems(2,3) by simp_all
  from Cons.IH [OF inv this] show ?case by simp
qed

lemma run_ids: "length acts < 9223372036854775807 \<Longrightarrow> ids_invariant (run acts)"
  unfolding run_def
  by (rule foldl_step_ids) (simp_all add: ids_invariant_def initial_def numbered_def)

lemma add_request_statuses:
  assumes "booking_statuses (requests_df st)" "stat = ''Confirmed'' \<or> stat = ''Waitlist''"
  shows "booking_statuses (requests_df (add_request u rid ttl s_date e_date stat st))"
  using assms by (auto simp: booking_statuses_def add_request_requests)

lemma step_statuses:
  "booking_statuses (requests_df st) \<Longrightarrow> booking_statuses (requests_df (step st a))"
proof (cases a)
  case (Submit today u rid s_date e_date)
  assume inv: "booking_statuses (requests_df st)"
  show ?thesis
    using submit_request_frames [of today u rid s_date e_date st] inv
          add_request_statuses [OF inv]
    by (auto simp: Submit)
next
  case (Offer today ttl cat descr loc s_date e_date cond rate)
  assume inv: "booking_statuses (requests_df st)"
  show ?thesis
    using offer_resource_frames [of today ttl cat descr loc s_date e_date cond rate st] inv
    by (auto simp: Offer)
qed

lemma foldl_step_statuses:
  "booking_statuses (requests_df st) \<Longrightarrow> booking_statuses (requests_df (foldl step st acts))"
  by (induction acts arbitrary: st) (simp_all add: step_statuses)

lemma run_statuses: "booking_statuses (requests_df (run acts))"
  unfolding run_def
  by (rule foldl_step_statuses) (simp add: booking_statuses_def initial_def)

lemma waitlist_booked:
  "submit_request (ymd 2025 5 20) ''Ravi'' 1 (ymd 2025 6 5) (ymd 2025 6 7) booked =
     (St_warning, waitlisted)"
  unfolding submit_request_valid [OF validate_may_june(2) strip_names(2)] available_booked(1)
  by (simp add: add_request_Waitlist strftime_june)
     (simp add: waitlisted_def booked_def drill_def june_booking_def next_id_def wrap64_def
        squeeze_title_def)

lemma offer_drill:
  "fst (validate_dates (ymd 2025 5 20) (ymd 2025 6 2) (ymd 2025 6 30))"
  "strip ''Drill'' \<noteq> ''''" "strip ''Pune'' \<noteq> ''''"
  by (simp_all add: validate_dates_def ymd_def date_eval strip_def isspace_def)

lemma strftime_june_end: "strftime (ymd 2025 6 30) = ''2025-06-30''"
  by code_simp

lemma offer_initial:
  "offer_resource (ymd 2025 5 20) ''Drill'' ''Tools'' ''Cordless drill'' ''Pune''
     (ymd 2025 6 2) (ymd 2025 6 30) ''Good'' 4 initial = (St_success, listed)"
  unfolding offer_resource_valid [OF offer_drill]
  by (simp add: strftime_june_end strftime_june)
     (simp add: initial_def listed_def drill_def next_id_def wrap64_def)

lemma run_sample: "run sample_run = waitlisted"
  by (simp add: run_def sample_run_def offer_initial first_booking_listed waitlist_booked)

lemma available_last_id:
  "is_resource_available 1 (ymd 2025 6 5) (ymd 2025 6 7) (requests_df last_id_ledger) =
     Inr False"
  by (simp add: is_resource_available_def last_id_ledger_def june_booking_def ymd_def
        date_eval)

text \<open>
  C8, as the code has it. A resource offered gets the identifier \<open>max + 1\<close> of the
  identifiers in the store, or 1 in an empty store, and a request appended gets
  \<open>max + 1\<close> of the request identifiers in the ledger, or 1 in an empty ledger, as
  long as every identifier present is below the largest 64-bit integer \<open>2^63 - 1\<close>.
  Hence in the frames of every run of fewer than \<open>2^63 - 1\<close> form submissions, which
  only these operations build, the identifiers of each frame are pairwise different
  and positive.
\<close>

theorem identifier_assignment:
  "(fst (validate_dates today s_date e_date) \<and> strip ttl \<noteq> '''' \<and> strip loc \<noteq> '''' \<and>
    below_max64 (map id_col (resources_df st)) \<longrightarrow>
      (\<exists>r. resources_df
              (snd (offer_resource today ttl cat descr loc s_date e_date cond rate st)) =
                resources_df st @ [r] \<and>
            id_col r = (if resources_df st = [] then 1
                        else Max (id_col ` set (resources_df st)) + 1))) \<and>
   (below_max64 (map request_id (requests_df st)) \<longrightarrow>
      (\<exists>r. requests_df (add_request u rid tv s_date e_date stat st) = requests_df st @ [r] \<and>
            request_id r = (if requests_df st = [] then 1
                            else Max (request_id ` set (requests_df st)) + 1))) \<and>
   (length acts < 2 ^ 63 - 1 \<longrightarrow>
      distinct (map id_col (resources_df (run acts))) \<and>
      (\<forall>r\<in>set (resources_df (run acts)). 0 < id_col r) \<and>
      distinct (map request_id (requests_df (run acts))) \<and>
      (\<forall>r\<in>set (requests_df (run acts)). 0 < request_id r))"
proof -
  have offer: "fst (validate_dates today s_date e_date) \<and> strip ttl \<noteq> '''' \<and> strip loc \<noteq> '''' \<and>
    below_max64 (map id_col (resources_df st)) \<longrightarrow>
      (\<exists>r. resources_df
              (snd (offer_resource today ttl cat descr loc s_date e_date cond rate st)) =
                resources_df st @ [r] \<and>
            id_col r = (if resources_df st = [] then 1
                        else Max (id_col ` set (resources_df st)) + 1))"
    by (simp add: offer_resource_valid next_id_Max)
  have append: "below_max64 (map request_id (requests_df st)) \<longrightarrow>
      (\<exists>r. requests_df (add_request u rid tv s_date e_date stat st) = requests_df st @ [r] \<and>
            request_id r = (if requests_df st = [] then 1
                            else Max (request_id ` set (requests_df st)) + 1))"
    by (simp add: add_request_requests next_id_Max)
  have ids: "length acts < 2 ^ 63 - 1 \<longrightarrow>
      distinct (map id_col (resources_df (run acts))) \<and>
      (\<forall>r\<in>set (resources_df (run acts)). 0 < id_col r) \<and>
      distinct (map request_id (requests_df (run acts))) \<and>
      (\<forall>r\<in>set (requests_df (run acts)). 0 < request_id r)"
  proof
    assume "length acts < 2 ^ 63 - 1"
    then have "ids_invariant (run acts)"
      by (intro run_ids) simp
    then show "distinct (map id_col (resources_df (run acts))) \<and>
      (\<forall>r\<in>set (resources_df (run acts)). 0 < id_col r) \<and>
      distinct (map request_id (requests_df (run acts))) \<and>
      (\<forall>r\<in>set (requests_df (run acts)). 0 < request_id r)"
      by (simp add: ids_invariant_def numbered_def list_all_iff)
  qed
  from offer append ids show ?thesis by blast
qed

theorem identifier_assignment_witness:
  "fst (validate_dates (ymd 2025 5 20) (ymd 2025 6 2) (ymd 2025 6 30)) \<and>
   strip ''Drill'' \<noteq> '''' \<and> strip ''Pune'' \<noteq> '''' \<and>
   below_max64 (map request_id (requests_df booked)) \<and>
   map request_id (requests_df booked) = [1] \<and>
   map request_id
     (requests_df
        (add_request ''Ravi'' 1 (Title ''Drill'') (ymd 2025 6 5) (ymd 2025 6 7) ''Waitlist''
           booked)) = [1, 2] \<and>
   length sample_run < 2 ^ 63 - 1 \<and>
   map id_col (resources_df (run sample_run)) = [1] \<and>
   map request_id (requests_df (run sample_run)) = [1, 2] \<and>
   distinct (map id_col (resources_df (run sample_run))) \<and>
   distinct (map request_id (requests_df (run sample_run))) \<and>
   list_all (\<lambda>r. 0 < request_id r) (requests_df (run sample_run))"
proof -
  have cols: "map id_col (resources_df (run sample_run)) = [1]"
    "map request_id (requests_df (run sample_run)) = [1, 2]"
    by (simp_all add: run_sample waitlisted_def booked_def drill_def june_booking_def)
  have short: "length sample_run < 2 ^ 63 - 1"
    by (simp add: sample_run_def)
  have small: "below_max64 (map request_id (requests_df booked))"
    "map request_id (requests_df booked) = [1]"
    by (simp_all add: below_max64_def booked_def june_booking_def)
  have "\<exists>r. requests_df
              (add_request ''Ravi'' 1 (Title ''Drill'') (ymd 2025 6 5) (ymd 2025 6 7)
                 ''Waitlist'' booked) = requests_df booked @ [r] \<and>
            request_id r = (if requests_df booked = [] then 1
                            else Max (request_id ` set (requests_df booked)) + 1)"
    using identifier_assignment [where st = booked and stat = "''Waitlist''"] small(1)
    by blast
  then obtain r where r: "requests_df
              (add_request ''Ravi'' 1 (Title ''Drill'') (ymd 2025 6 5) (ymd 2025 6 7)
                 ''Waitlist'' booked) = requests_df booked @ [r]"
      "request_id r = (if requests_df booked = [] then 1
                       else Max (request_id ` set (requests_df booked)) + 1)"
    by blast
  from r(2) have "request_id r = 2"
    by (simp add: booked_def june_booking_def)
  with r(1) small(2) have appended: "map request_id
     (requests_df
        (add_request ''Ravi'' 1 (Title ''Drill'') (ymd 2025 6 5) (ymd 2025 6 7) ''Waitlist''
           booked)) = [1, 2]"
    by simp
  have "distinct (map id_col (resources_df (run sample_run))) \<and>
   distinct (map request_id (requests_df (run sample_run))) \<and>
   list_all (\<lambda>r. 0 < request_id r) (requests_df (run sample_run))"
    using identifier_assignment [where acts = sample_run] short
    by (simp add: list_all_iff)
  with cols short small appended offer_drill show ?thesis by blast
qed

text \<open>
  The claim as the specification words it fails: on a ledger whose request has the
  largest 64-bit identifier, the request appended gets the smallest 64-bit integer, which
  is neither \<open>max + 1\<close> nor positive.
\<close>

theorem identifier_overflow_counterexample:
  "map request_id (requests_df last_id_ledger) = [9223372036854775807] \<and>
   Max (request_id ` set (requests_df last_id_ledger)) + 1 = 9223372036854775808 \<and>
   submit_request (ymd 2025 5 20) ''Ravi'' 1 (ymd 2025 6 5) (ymd 2025 6 7) last_id_ledger =
     (St_warning,
      last_id_ledger\<lparr>requests_df :=
        requests_df last_id_ledger @
        [\<lparr>request_id = - 9223372036854775808, user_name = ''Ravi'', resource_id = 1,
           resource_title = Title ''Drill'', start_date = ''2025-06-05'',
           end_date = ''2025-06-07'', status = ''Waitlist''\<rparr>]\<rparr>)"
proof -
  have "submit_request (ymd 2025 5 20) ''Ravi'' 1 (ymd 2025 6 5) (ymd 2025 6 7) last_id_ledger =
     (St_warning,
      last_id_ledger\<lparr>requests_df :=
        requests_df last_id_ledger @
        [\<lparr>request_id = - 9223372036854775808, user_name = ''Ravi'', resource_id = 1,
           resource_title = Title ''Drill'', start_date = ''2025-06-05'',
           end_date = ''2025-06-07'', status = ''Waitlist''\<rparr>]\<rparr>)"
    unfolding submit_request_valid [OF validate_may_june(2) strip_names(2)] available_last_id
    by (simp add: add_request_Waitlist strftime_june)
       (simp add: last_id_ledger_def booked_def drill_def june_booking_def next_id_def
          wrap64_def squeeze_title_def)
  moreover have "map request_id (requests_df last_id_ledger) = [9223372036854775807]"
    "Max (request_id ` set (requests_df last_id_ledger)) + 1 = 9223372036854775808"
    by (simp_all add: last_id_ledger_def)
  ultimately show ?thesis by blast
qed

text \<open>
  C9. The counters of confirmed and of waitlisted requests, on the Home page and on the
  dashboard, count the rows whose status is \<open>confirmed\<close> and \<open>requested\<close>, in lower
  case; the booking path writes only the statuses \<open>Confirmed\<close> and \<open>Waitlist\<close>. On
  the ledger of every run the four counters are therefore 0, whatever the number of
  requests.
\<close>

theorem counters_zero:
  "(\<forall>r\<in>set (requests_df (run acts)). status r = ''Confirmed'' \<or> status r = ''Waitlist'') \<and>
   confirmed_requests (requests_df (run acts)) = 0 \<and>
   waitlist_requests (requests_df (run acts)) = 0 \<and>
   confirmed (requests_df (run acts)) = 0 \<and>
   waitlist (requests_df (run acts)) = 0"
proof -
  have st: "\<forall>r\<in>set (requests_df (run acts)). status r = ''Confirmed'' \<or> status r = ''Waitlist''"
    using run_statuses [of acts] by (simp add: booking_statuses_def list_all_iff)
  have a: "filter (\<lambda>r. status r = ''confirmed'') (requests_df (run acts)) = []"
    using st by (auto simp: filter_empty_conv)
  have b: "filter (\<lambda>r. status r = ''requested'') (requests_df (run acts)) = []"
    using st by (auto simp: filter_empty_conv)
  from st a b show ?thesis
    by (simp add: confirmed_requests_def waitlist_requests_def confirmed_def waitlist_def)
qed

theorem counters_zero_witness:
  "length (requests_df (run sample_run)) = 2 \<and>
   map status (requests_df (run sample_run)) = [''Confirmed'', ''Waitlist''] \<and>
   confirmed_requests (requests_df (run sample_run)) = 0 \<and>
   waitlist_requests (requests_df (run sample_run)) = 0 \<and>
   confirmed (requests_df (run sample_run)) = 0 \<and>
   waitlist (requests_df (run sample_run)) = 0"
proof -
  have "length (requests_df (run sample_run)) = 2 \<and>
        map status (requests_df (run sample_run)) = [''Confirmed'', ''Waitlist'']"
    by (simp add: run_sample waitlisted_def june_booking_def)
  with counters_zero [of sample_run] show ?thesis by blast
qed

section \<open>Smart search: the loop and the score\<close>

lemma iloc_in_range:
  "- int (length df) \<le> idx \<Longrightarrow> idx < int (length df) \<Longrightarrow> iloc df idx = Inr (row_at df idx)"
  by (simp add: iloc_def row_at_def Let_def)

text \<open>
  The loop with the results collected so far, as long as fewer than \<open>k\<close> are
  collected: it adds the kept entries in order until \<open>k\<close> are there.
\<close>

lemma search_loop_acc:
  assumes "positions_in df retrieved" "length acc < k"
  shows "search_loop df k retrieved acc =
           Inr (acc @ take (k - length acc)
                        (map (\<lambda>(d, i). (row_at df i, score d))
                           (filter (\<lambda>(d, i). 0 \<le> d) retrieved)))"
  using assms
proof (induction retrieved arbitrary: acc)
  case Nil
  then show ?case by simp
next
  case (Cons p rest)
  obtain d i where p: "p = (d, i)" by (cases p)
  have rest: "positions_in df rest"
    using Cons.prems(1) by (simp add: positions_in_def)
  show ?case
  proof (cases "0 \<le> d")
    case False
    with Cons.IH [OF rest Cons.prems(2)] Cons.prems(2) show ?thesis
      by (simp add: p)
  next
    case True
    with Cons.prems(1) have "iloc df i = Inr (row_at df i)"
      by (simp add: positions_in_def p iloc_in_range)
    note row = this
    show ?thesis
    proof (cases "Suc (length acc) < k")
      case full: False
      with Cons.prems(2) have k: "k - length acc = Suc 0" by simp
      from full True show ?thesis
        by (simp add: p row k)
    next
      case more: True
      then have "length (acc @ [(row_at df i, score d)]) < k" by simp
      from Cons.IH [OF rest this] more True show ?thesis
        by (simp add: p row Suc_diff_Suc [symmetric] take_Suc_Cons [symmetric]
              del: take_Suc_Cons)
    qed
  qed
qed

lemma spec_search_score:
  "spec_search df k retrieved =
     take k (map (\<lambda>(d, i). (row_at df i, score d)) (filter (\<lambda>(d, i). 0 \<le> d) retrieved))"
  by (simp add: spec_search_def score_def take_map)

lemma search_refines:
  assumes "length (retrieve query (k * 2)) = k * 2" "positions_in df (retrieve query (k * 2))"
  shows "search retrieve df query k = Inr (spec_search df k (retrieve query (k * 2)))"
proof (cases "k = 0")
  case True
  with assms(1) have "retrieve query (k * 2) = []" by simp
  then show ?thesis by (simp add: search_def spec_search_def)
next
  case False
  then have "length ([] :: (resource \<times> real) list) < k" by simp
  from search_loop_acc [OF assms(2) this] show ?thesis
    by (simp add: search_def spec_search_score)
qed

lemma score_antimono: "d1 \<le> d2 \<Longrightarrow> score d2 \<le> score d1"
  by (simp add: score_def max_def)

lemma score_nonneg: "0 \<le> score d"
  by (simp add: score_def)

lemma spec_search_scores:
  "map snd (spec_search df k retrieved) =
     map (\<lambda>(d, i). score d) (take k (filter (\<lambda>(d, i). 0 \<le> d) retrieved))"
  by (simp add: spec_search_def score_def split_def)

lemma spec_search_descending:
  assumes "sorted (map fst retrieved)"
  shows "sorted (rev (map snd (spec_search df k retrieved)))"
proof -
  let ?kept = "take k (filter (\<lambda>(d, i). 0 \<le> d) retrieved)"
  have "sorted_wrt (\<lambda>x y. fst x \<le> fst y) retrieved"
    using assms by (simp add: sorted_wrt_map)
  then have "sorted_wrt (\<lambda>x y. fst x \<le> fst y) ?kept"
    by (intro sorted_wrt_take sorted_wrt_filter)
  then have "sorted_wrt (\<lambda>x y. score (fst y) \<le> score (fst x)) ?kept"
    by (rule sorted_wrt_mono_rel [rotated]) (simp add: score_antimono)
  then have "sorted (rev (map (\<lambda>(d, i). score d) ?kept))"
    by (simp add: sorted_wrt_rev sorted_wrt_map split_def flip: rev_map)
  then show ?thesis
    by (simp add: spec_search_scores)
qed

lemma nearest_ten_contract:
  "length (nearest_ten query 10) = 10"
  "positions_in ten_resources (nearest_ten query 10)"
  "sorted (map fst (nearest_ten query 10))"
  by (simp_all add: nearest_ten_def positions_in_def ten_resources_def)

lemma spec_search_ten: "spec_search ten_resources 5 (nearest_ten query 10) = top_five"
  by (simp add: spec_search_def nearest_ten_def ten_resources_def top_five_def row_at_def)

lemma search_loop_ten: "search_loop ten_resources 5 (nearest_ten query 10) [] = Inr top_five"
  by (simp add: nearest_ten_def ten_resources_def top_five_def iloc_def score_def)

text \<open>
  C5. With the index returning \<open>2k\<close> entries whose positions are rows of the frame,
  \<open>search\<close> returns what the specification describes: the entries of negative
  distance discarded, the first \<open>k\<close> of the others in the order retrieved, each with
  the score \<open>max(1 - d/2, 0)\<close>. The result has at most \<open>k\<close> entries, and when the
  entries are retrieved in ascending distance the scores of the result descend.
\<close>

theorem search_first_k:
  "length (retrieve query (k * 2)) = k * 2 \<and> positions_in df (retrieve query (k * 2)) \<longrightarrow>
     search retrieve df query k = Inr (spec_search df k (retrieve query (k * 2))) \<and>
     length (spec_search df k (retrieve query (k * 2))) \<le> k \<and>
     (sorted (map fst (retrieve query (k * 2))) \<longrightarrow>
        sorted (rev (map snd (spec_search df k (retrieve query (k * 2))))))"
proof
  assume h: "length (retrieve query (k * 2)) = k * 2 \<and> positions_in df (retrieve query (k * 2))"
  then have "search retrieve df query k = Inr (spec_search df k (retrieve query (k * 2)))"
    by (simp add: search_refines)
  moreover have "length (spec_search df k (retrieve query (k * 2))) \<le> k"
    by (simp add: spec_search_def)
  moreover have "sorted (map fst (retrieve query (k * 2))) \<longrightarrow>
        sorted (rev (map snd (spec_search df k (retrieve query (k * 2)))))"
    using spec_search_descending by blast
  ultimately show "search retrieve df query k = Inr (spec_search df k (retrieve query (k * 2))) \<and>
     length (spec_search df k (retrieve query (k * 2))) \<le> k \<and>
     (sorted (map fst (retrieve query (k * 2))) \<longrightarrow>
        sorted (rev (map snd (spec_search df k (retrieve query (k * 2))))))"
    by blast
qed

theorem search_first_k_witness:
  "length (nearest_ten ''drill'' 10) = 10 \<and>
   positions_in ten_resources (nearest_ten ''drill'' 10) \<and>
   sorted (map fst (nearest_ten ''drill'' 10)) \<and>
   search nearest_ten ten_resources ''drill'' 5 = Inr top_five \<and>
   length top_five \<le> 5 \<and> sorted (rev (map snd top_five))"
proof -
  have "search nearest_ten ten_resources ''drill'' 5 = Inr top_five \<and>
        length top_five \<le> 5 \<and> sorted (rev (map snd top_five))"
    using search_first_k [of nearest_ten "''drill''" 5 ten_resources]
          nearest_ten_contract [of "''drill''"]
    by (simp add: spec_search_ten)
  with nearest_ten_contract [of "''drill''"] show ?thesis by blast
qed

text \<open>
  C6. The score given to a result is \<open>max(1 - d/2, 0)\<close> of its distance \<open>d\<close>: the
  scores of the results of \<open>search\<close> are those of the kept distances, in order. The
  score is never negative and does not grow with the distance.
\<close>

theorem score_of_distance:
  "score d = max (1 - d / 2) 0 \<and> 0 \<le> score d \<and> (d1 \<le> d2 \<longrightarrow> score d2 \<le> score d1) \<and>
   (length (retrieve query (k * 2)) = k * 2 \<and> positions_in df (retrieve query (k * 2)) \<longrightarrow>
      (\<exists>results. search retrieve df query k = Inr results \<and>
         map snd results =
           map (\<lambda>(dst, idx). max (1 - dst / 2) 0)
             (take k (filter (\<lambda>(dst, idx). 0 \<le> dst) (retrieve query (k * 2))))))"
proof -
  have a: "score d = max (1 - d / 2) 0" by (simp add: score_def)
  have b: "0 \<le> score d" by (rule score_nonneg)
  have c: "d1 \<le> d2 \<longrightarrow> score d2 \<le> score d1" by (simp add: score_antimono)
  have e: "length (retrieve query (k * 2)) = k * 2 \<and> positions_in df (retrieve query (k * 2)) \<longrightarrow>
      (\<exists>results. search retrieve df query k = Inr results \<and>
         map snd results =
           map (\<lambda>(dst, idx). max (1 - dst / 2) 0)
             (take k (filter (\<lambda>(dst, idx). 0 \<le> dst) (retrieve query (k * 2)))))"
    by (simp add: search_refines spec_search_scores score_def)
  from a b c e show ?thesis by blast
qed

theorem score_of_distance_witness:
  "score (2 / 5) = 4 / 5 \<and> score 3 = 0 \<and> (2 / 5 :: real) \<le> 3 \<and> score 3 \<le> score (2 / 5) \<and>
   length (nearest_ten ''drill'' 10) = 10 \<and>
   positions_in ten_resources (nearest_ten ''drill'' 10) \<and>
   search nearest_ten ten_resources ''drill'' 5 = Inr top_five \<and>
   map snd top_five = [1, 4 / 5, 3 / 5, 2 / 5, 1 / 5]"
proof -
  have le: "(2 / 5 :: real) \<le> 3" by simp
  have vals: "score (2 / 5) = 4 / 5" "score 3 = 0"
    using score_of_distance [of "2 / 5"] score_of_distance [of 3] by simp_all
  have mono: "score 3 \<le> score (2 / 5)"
    using score_of_distance [of _ "2 / 5" 3] le by blast
  have run: "search nearest_ten ten_resources ''drill'' 5 = Inr top_five"
    by (simp add: search_def search_loop_ten)
  have scores: "map snd top_five = [1, 4 / 5, 3 / 5, 2 / 5, 1 / 5]"
    by (simp add: top_five_def)
  from le vals mono run scores nearest_ten_contract(1,2) [of "''drill''"]
  show ?thesis by blast
qed

text \<open>On a store without resources the page raises before the query is looked at.\<close>

lemma smart_search_empty_store: "smart_search retrieve [] query = Inl ValueError"
  by (simp add: smart_search_def build_index_def)




end
